theory Spec2Isabelle
  imports Main "HOL-Library.Word"
begin

section \<open>Lobby coordinator: data model\<close>

text \<open>
  The lobby lives in \<^verbatim>\<open>src/index.js\<close> (the first document of that file, lines 172-343).
  Two process-wide JavaScript \<^verbatim>\<open>Map\<close>s hold the state: \<^verbatim>\<open>connectedUsers\<close> (socket id to
  user) and \<^verbatim>\<open>activeGames\<close> (game id to game object). Every handler runs to completion
  on the event loop, so a handler is a function from the state to the new state and the
  list of events it passed to \<^verbatim>\<open>io.emit\<close>, in emission order.

  A participant is the object a client sends as \<^verbatim>\<open>player\<close>: the code reads its \<^verbatim>\<open>uid\<close> and
  its \<^verbatim>\<open>isReady\<close> flag and copies every other field untouched (\<^verbatim>\<open>...player\<close>); those
  other fields are kept together in \<open>profile\<close>. A game is the object sent with
  \<^verbatim>\<open>createGame\<close>: the code reads \<^verbatim>\<open>id\<close>, \<^verbatim>\<open>status\<close> and \<^verbatim>\<open>participants\<close>. The model
  covers games whose \<^verbatim>\<open>participants\<close> is an array of objects with a boolean \<^verbatim>\<open>isReady\<close>,
  and string identifiers; the status is any string, as in the code.
\<close>

record participant =
  uid :: string
  isReady :: bool
  profile :: "(string \<times> string) list"

record game =
  game_id :: string
  status :: string
  participants :: "participant list"

record user =
  user_id :: string
  name :: string
  email :: "string option"
  avatar :: "string option"

record auth =
  auth_uid :: "string option"
  displayName :: "string option"
  auth_email :: "string option"
  photoURL :: "string option"

datatype event =
    GameCreated game
  | PlayerJoined string participant
  | PlayerLeft string string
  | PlayerReadyChanged string string bool
  | AllPlayersReady string
  | GameUpdated game

text \<open>
  A JavaScript \<^verbatim>\<open>Map\<close> iterates in insertion order, and \<^verbatim>\<open>set\<close> on a key that is present
  replaces the value where it stands. \<^verbatim>\<open>activeGames\<close> is iterated by the disconnect
  handler, so it is an association list in insertion order; \<^verbatim>\<open>connectedUsers\<close> is only
  looked up, set and deleted, so it is a partial function.
\<close>

fun mapGet :: "('k \<times> 'v) list \<Rightarrow> 'k \<Rightarrow> 'v option" where
  "mapGet [] k = None"
| "mapGet ((k', v) # m) k = (if k' = k then Some v else mapGet m k)"

fun mapSet :: "'k \<Rightarrow> 'v \<Rightarrow> ('k \<times> 'v) list \<Rightarrow> ('k \<times> 'v) list" where
  "mapSet k v [] = [(k, v)]"
| "mapSet k v ((k', v') # m) = (if k' = k then (k, v) # m else (k', v') # mapSet k v m)"

record server =
  connectedUsers :: "string \<rightharpoonup> user"
  activeGames :: "(string \<times> game) list"

definition initial :: server where
  "initial = \<lparr>connectedUsers = Map.empty, activeGames = []\<rparr>"

text \<open>The keys of a \<^verbatim>\<open>Map\<close> are pairwise different.\<close>

definition wellFormed :: "server \<Rightarrow> bool" where
  "wellFormed s = distinct (map fst (activeGames s))"

section \<open>Lobby coordinator: handlers\<close>

text \<open>
  \<^verbatim>\<open>io.on('connection', ...)\<close>: a socket without \<^verbatim>\<open>auth\<close> or with a falsy \<^verbatim>\<open>auth.uid\<close>
  (absent or the empty string) is disconnected and not registered.
\<close>

definition orElse :: "string option \<Rightarrow> string \<Rightarrow> string" where
  "orElse v d = (case v of None \<Rightarrow> d | Some x \<Rightarrow> if x = [] then d else x)"

definition connection :: "server \<Rightarrow> string \<Rightarrow> auth option \<Rightarrow> server" where
  "connection s socketId a =
     (case a of
        None \<Rightarrow> s
      | Some au \<Rightarrow>
          (case auth_uid au of
             None \<Rightarrow> s
           | Some u \<Rightarrow>
               if u = [] then s
               else s\<lparr>connectedUsers := (connectedUsers s)(socketId \<mapsto>
                      \<lparr>user_id = u, name = orElse (displayName au) ''Anonymous'',
                       email = auth_email au, avatar = photoURL au\<rparr>)\<rparr>))"

definition createGame :: "server \<Rightarrow> game \<Rightarrow> server \<times> event list" where
  "createGame s gameData =
     (s\<lparr>activeGames := mapSet (game_id gameData) gameData (activeGames s)\<rparr>,
      [GameCreated gameData])"

definition joinGame :: "server \<Rightarrow> string \<Rightarrow> participant \<Rightarrow> server \<times> event list" where
  "joinGame s gameId player =
     (case mapGet (activeGames s) gameId of
        None \<Rightarrow> (s, [])
      | Some g \<Rightarrow>
          let playerWithReady = player\<lparr>isReady := False\<rparr>;
              g' = g\<lparr>participants := participants g @ [playerWithReady]\<rparr>
          in (s\<lparr>activeGames := mapSet gameId g' (activeGames s)\<rparr>,
              [PlayerJoined gameId playerWithReady]))"

definition leaveGame :: "server \<Rightarrow> string \<Rightarrow> string \<Rightarrow> server \<times> event list" where
  "leaveGame s gameId playerId =
     (case mapGet (activeGames s) gameId of
        None \<Rightarrow> (s, [])
      | Some g \<Rightarrow>
          let g' = g\<lparr>participants := filter (\<lambda>p. uid p \<noteq> playerId) (participants g)\<rparr>
          in (s\<lparr>activeGames := mapSet gameId g' (activeGames s)\<rparr>,
              [PlayerLeft gameId playerId]))"

definition toggleReady :: "server \<Rightarrow> string \<Rightarrow> string \<Rightarrow> bool \<Rightarrow> server \<times> event list" where
  "toggleReady s gameId playerId ready =
     (case mapGet (activeGames s) gameId of
        None \<Rightarrow> (s, [])
      | Some g \<Rightarrow>
          let g' = g\<lparr>participants :=
                     map (\<lambda>p. if uid p = playerId then p\<lparr>isReady := ready\<rparr> else p)
                       (participants g)\<rparr>;
              allReady = list_all isReady (participants g')
          in (s\<lparr>activeGames := mapSet gameId g' (activeGames s)\<rparr>,
              PlayerReadyChanged gameId playerId ready #
              (if allReady then [AllPlayersReady gameId] else [])))"

text \<open>
  \<^verbatim>\<open>updateGame\<close> writes \<^verbatim>\<open>game.status = status\<close> and stores the game before it looks at
  the readiness of the participants; the early \<^verbatim>\<open>return\<close> only skips the broadcast.
\<close>

definition updateGame :: "server \<Rightarrow> string \<Rightarrow> string \<Rightarrow> server \<times> event list" where
  "updateGame s gameId newStatus =
     (case mapGet (activeGames s) gameId of
        None \<Rightarrow> (s, [])
      | Some g \<Rightarrow>
          let g' = g\<lparr>status := newStatus\<rparr>;
              s' = s\<lparr>activeGames := mapSet gameId g' (activeGames s)\<rparr>
          in if newStatus = ''In Progress'' \<and> \<not> list_all isReady (participants g')
             then (s', [])
             else (s', [GameUpdated g']))"

text \<open>
  The disconnect handler walks the entries of \<^verbatim>\<open>activeGames\<close> in order; for an entry
  with a participant of the user's id it filters the participants, stores the game
  under its key and emits \<^verbatim>\<open>playerLeft\<close>. The second list is the store being updated.
\<close>

fun disconnectLoop ::
  "string \<Rightarrow> (string \<times> game) list \<Rightarrow> (string \<times> game) list \<Rightarrow> (string \<times> game) list \<times> event list"
where
  "disconnectLoop u [] store = (store, [])"
| "disconnectLoop u ((gameId, g) # rest) store =
     (if list_ex (\<lambda>p. uid p = u) (participants g)
      then let g' = g\<lparr>participants := filter (\<lambda>p. uid p \<noteq> u) (participants g)\<rparr>;
               r = disconnectLoop u rest (mapSet gameId g' store)
           in (fst r, PlayerLeft gameId u # snd r)
      else disconnectLoop u rest store)"

definition disconnect :: "server \<Rightarrow> string \<Rightarrow> server \<times> event list" where
  "disconnect s socketId =
     (let found = connectedUsers s socketId;
          s1 = s\<lparr>connectedUsers := (connectedUsers s)(socketId := None)\<rparr>
      in case found of
           None \<Rightarrow> (s1, [])
         | Some usr \<Rightarrow>
             let r = disconnectLoop (user_id usr) (activeGames s1) (activeGames s1)
             in (s1\<lparr>activeGames := fst r\<rparr>, snd r))"

section \<open>Status query client\<close>

text \<open>
  \<^verbatim>\<open>queryGameServer\<close> (\<^verbatim>\<open>src/index.js\<close>, lines 377-425) builds the probe once, sends it with
  \<^verbatim>\<open>client.send(queryPacket, 0, queryPacket.length, port, ip)\<close> and parses the first
  datagram that arrives. JavaScript text is a \<open>string\<close> here: one \<open>char\<close> per code
  unit, which covers the code units up to \<^verbatim>\<open>0xFF\<close>. The separators, the key names and the
  digits the parser looks for are all ASCII.

  The string literal of the probe holds four times the code unit \<^verbatim>\<open>U+00FF\<close> (the source
  file stores each as the UTF-8 bytes \<^verbatim>\<open>C3 BF\<close>) and then \<^verbatim>\<open>getstatus\<close>.
  \<^verbatim>\<open>Buffer.from(text, 'binary')\<close> writes the low byte of every code unit.
\<close>

definition queryPacketText :: string where
  "queryPacketText = [CHR 0xFF, CHR 0xFF, CHR 0xFF, CHR 0xFF] @ ''getstatus''"

definition bufferFromBinary :: "string \<Rightarrow> 8 word list" where
  "bufferFromBinary text = map of_char text"

definition queryPacket :: "8 word list" where
  "queryPacket = bufferFromBinary queryPacketText"

record datagram =
  payload :: "8 word list"
  toPort :: nat
  toAddress :: string

definition send :: "8 word list \<Rightarrow> nat \<Rightarrow> nat \<Rightarrow> nat \<Rightarrow> string \<Rightarrow> datagram" where
  "send buf offset len port address =
     \<lparr>payload = take len (drop offset buf), toPort = port, toAddress = address\<rparr>"

definition sendQuery :: "string \<Rightarrow> nat \<Rightarrow> datagram" where
  "sendQuery ip port = send queryPacket 0 (length queryPacket) port ip"

text \<open>
  \<^verbatim>\<open>String.prototype.split\<close> with a separator of one character: the pieces between
  the separators, in order; a string without the separator is its own single piece and
  the empty string gives one empty piece.
\<close>

definition newline :: char where
  "newline = CHR 0x0A"

definition backslash :: char where
  "backslash = CHR 0x5C"

fun split_str :: "char \<Rightarrow> string \<Rightarrow> string list" where
  "split_str sep [] = [Nil]"
| "split_str sep (c # cs) =
     (if c = sep then [] # split_str sep cs
      else (case split_str sep cs of [] \<Rightarrow> [c # Nil] | w # ws \<Rightarrow> (c # w) # ws))"

text \<open>
  The value read at \<^verbatim>\<open>statusVars[i + 1]\<close> is \<^verbatim>\<open>undefined\<close> when the list has odd
  length. \<^verbatim>\<open>parseInt\<close> follows the steps of the language standard for a call without
  radix: convert the argument to text, skip leading white space, read a sign, read the
  prefix \<^verbatim>\<open>0x\<close> or \<^verbatim>\<open>0X\<close>, take the longest run of digits of the radix, and answer
  \<^verbatim>\<open>NaN\<close> when that run is empty. The result is an exact integer here; JavaScript
  rounds it to a double, which is the same number below \<open>2 ^ 53\<close>, and keeps the
  sign of a negative zero, which is \<open>Num 0\<close> here.
\<close>

datatype jsnum = Num int | NaN

datatype jsval = Undefined | Str string

datatype jsError = TypeError

definition isWhiteSpace :: "char \<Rightarrow> bool" where
  "isWhiteSpace c =
     (c \<in> set [CHR 0x09, CHR 0x0A, CHR 0x0B, CHR 0x0C, CHR 0x0D, CHR 0x20, CHR 0xA0])"

definition digitValue :: "char \<Rightarrow> nat option" where
  "digitValue c =
     (let n = (of_char c :: nat) in
      if 48 \<le> n \<and> n \<le> 57 then Some (n - 48)
      else if 97 \<le> n \<and> n \<le> 122 then Some (n - 87)
      else if 65 \<le> n \<and> n \<le> 90 then Some (n - 55)
      else None)"

definition isRadixDigit :: "nat \<Rightarrow> char \<Rightarrow> bool" where
  "isRadixDigit R c = (case digitValue c of None \<Rightarrow> False | Some d \<Rightarrow> d < R)"

definition digitsValue :: "nat \<Rightarrow> string \<Rightarrow> int" where
  "digitsValue R Z =
     foldl (\<lambda>acc c. case digitValue c of None \<Rightarrow> acc | Some d \<Rightarrow> acc * int R + int d) 0 Z"

definition parseIntString :: "string \<Rightarrow> jsnum" where
  "parseIntString inputString =
     (let S = dropWhile isWhiteSpace inputString;
          sign = (case S of [] \<Rightarrow> 1 | c # r \<Rightarrow> if c = CHR ''-'' then - 1 else (1 :: int));
          S1 = (case S of [] \<Rightarrow> S | c # r \<Rightarrow> if c = CHR ''+'' \<or> c = CHR ''-'' then r else S);
          hex = (2 \<le> length S1 \<and> (take 2 S1 = ''0x'' \<or> take 2 S1 = ''0X''));
          S2 = (if hex then drop 2 S1 else S1);
          R = (if hex then 16 else 10);
          Z = takeWhile (isRadixDigit R) S2
      in if Z = [] then NaN else Num (sign * digitsValue R Z))"

definition parseInt :: "jsval \<Rightarrow> jsnum" where
  "parseInt v =
     (case v of Undefined \<Rightarrow> parseIntString ''undefined'' | Str s \<Rightarrow> parseIntString s)"

text \<open>
  The result object of the \<^verbatim>\<open>message\<close> callback. Its fields \<^verbatim>\<open>status\<close> and \<^verbatim>\<open>map\<close> are
  \<open>status_q\<close> and \<open>map_q\<close> here, the plain names being taken.
\<close>

record serverStatus =
  status_q :: string
  players :: int
  maxPlayers :: jsnum
  map_q :: jsval
  gametype :: jsval

text \<open>The body of the \<^verbatim>\<open>for\<close> loop: three independent tests on the key.\<close>

definition setVar :: "string \<Rightarrow> jsval \<Rightarrow> serverStatus \<Rightarrow> serverStatus" where
  "setVar key val st =
     (let st1 = (if key = ''sv_maxclients'' then st\<lparr>maxPlayers := parseInt val\<rparr> else st);
          st2 = (if key = ''mapname'' then st1\<lparr>map_q := val\<rparr> else st1)
      in if key = ''g_gametype'' then st2\<lparr>gametype := val\<rparr> else st2)"

text \<open>The loop \<^verbatim>\<open>for (let i = 0; i < statusVars.length; i += 2)\<close>.\<close>

fun parseVars :: "string list \<Rightarrow> serverStatus \<Rightarrow> serverStatus" where
  "parseVars [] st = st"
| "parseVars [key] st = setVar key Undefined st"
| "parseVars (key # val # rest) st = parseVars rest (setVar key (Str val) st)"

text \<open>
  The \<^verbatim>\<open>message\<close> callback, from the decoded text to what the promise settles with:
  \<open>Inr\<close> is \<^verbatim>\<open>resolve(status)\<close>, \<open>Inl\<close> is the \<^verbatim>\<open>catch\<close> branch. The first line is the
  status line, every further piece of the split is a player line.
\<close>

definition onMessage :: "string \<Rightarrow> jsError + serverStatus" where
  "onMessage response =
     (case split_str newline response of
        [] \<Rightarrow> Inl TypeError
      | statusLine # playerLines \<Rightarrow>
          let statusVars = tl (split_str backslash statusLine)
          in Inr (parseVars statusVars
                \<lparr>status_q = ''online'', players = int (length playerLines) - 1,
                 maxPlayers = Num 32, map_q = Str ''unknown'', gametype = Str ''unknown''\<rparr>))"

section \<open>Observations and sample states\<close>

fun isAllPlayersReady :: "event \<Rightarrow> bool" where
  "isAllPlayersReady (AllPlayersReady gameId) = True"
| "isAllPlayersReady e = False"

text \<open>An entry of the store with the participants of user id \<open>u\<close> taken out.\<close>

definition withoutUser :: "string \<Rightarrow> string \<times> game \<Rightarrow> string \<times> game" where
  "withoutUser u e =
     (fst e, (snd e)\<lparr>participants := filter (\<lambda>p. uid p \<noteq> u) (participants (snd e))\<rparr>)"

text \<open>The keys of the games that have a participant of user id \<open>u\<close>, in store order.\<close>

definition gamesOf :: "string \<Rightarrow> (string \<times> game) list \<Rightarrow> string list" where
  "gamesOf u m = map fst (filter (\<lambda>e. list_ex (\<lambda>p. uid p = u) (participants (snd e))) m)"

definition ann :: participant where
  "ann = \<lparr>uid = ''u1'', isReady = False, profile = [(''name'', ''Ann'')]\<rparr>"

definition bob :: participant where
  "bob = \<lparr>uid = ''u2'', isReady = True, profile = [(''name'', ''Bob'')]\<rparr>"

definition emptyGame :: game where
  "emptyGame = \<lparr>game_id = ''g0'', status = ''Open'', participants = []\<rparr>"

definition waitingGame :: game where
  "waitingGame = \<lparr>game_id = ''g1'', status = ''Open'', participants = [ann, bob]\<rparr>"

definition readyGame :: game where
  "readyGame = \<lparr>game_id = ''g2'', status = ''Open'', participants = [bob]\<rparr>"

definition otherGame :: game where
  "otherGame =
     \<lparr>game_id = ''g3'', status = ''Open'', participants = [bob, ann, ann\<lparr>isReady := True\<rparr>]\<rparr>"

definition annUser :: user where
  "annUser = \<lparr>user_id = ''u1'', name = ''Ann'', email = None, avatar = None\<rparr>"

definition lobby :: server where
  "lobby =
     \<lparr>connectedUsers = [''sock1'' \<mapsto> annUser],
      activeGames =
        [(''g0'', emptyGame), (''g1'', waitingGame), (''g2'', readyGame), (''g3'', otherGame)]\<rparr>"

text \<open>
  The response of the status-query example: the line \<^verbatim>\<open>statusResponse\<close>, the line of
  variables, two player lines, each ended by a newline.
\<close>

definition capturedResponse :: string where
  "capturedResponse =
     ''statusResponse'' @ [newline]
     @ [backslash] @ ''sv_maxclients'' @ [backslash] @ ''16''
     @ [backslash] @ ''mapname'' @ [backslash] @ ''dm1''
     @ [backslash] @ ''g_gametype'' @ [backslash] @ ''0'' @ [newline]
     @ ''player1'' @ [newline] @ ''player2'' @ [newline]"

lemmas sample_defs =
  ann_def bob_def emptyGame_def waitingGame_def readyGame_def otherGame_def annUser_def lobby_def

section \<open>Facts about the store\<close>

lemma mapGet_mapSet_same: "mapGet (mapSet k v m) k = Some v"
  by (induction m) auto

lemma mapGet_mapSet_other: "k' \<noteq> k \<Longrightarrow> mapGet (mapSet k v m) k' = mapGet m k'"
  by (induction m) auto

lemma mapSet_same_value: "mapGet m k = Some v \<Longrightarrow> mapSet k v m = m"
  by (induction m) (auto split: if_splits)

lemma mapGet_None_iff: "mapGet m k = None \<longleftrightarrow> k \<notin> fst ` set m"
  by (induction m) (fastforce split: if_splits)+

lemma keys_mapSet:
  "map fst (mapSet k v m) = (if k \<in> fst ` set m then map fst m else map fst m @ [k])"
  by (induction m) (fastforce split: if_splits)+

lemma distinct_mapSet: "distinct (map fst m) \<Longrightarrow> distinct (map fst (mapSet k v m))"
  by (simp add: keys_mapSet)

lemma mapSet_at_fresh_prefix:
  "k \<notin> fst ` set pre \<Longrightarrow> mapSet k v (pre @ (k, w) # es) = pre @ (k, v) # es"
  by (induction pre) auto

text \<open>
  On a store with pairwise different keys the loop of the disconnect handler rewrites
  every entry in place and emits one \<^verbatim>\<open>playerLeft\<close> per game the user was in.
\<close>

lemma disconnectLoop_distinct:
  "distinct (map fst (pre @ es)) \<Longrightarrow>
   disconnectLoop u es (pre @ es) =
     (pre @ map (withoutUser u) es, map (\<lambda>k. PlayerLeft k u) (gamesOf u es))"
proof (induction es arbitrary: pre)
  case Nil
  then show ?case by (simp add: gamesOf_def)
next
  case (Cons e es)
  obtain k g where e: "e = (k, g)" by (cases e)
  from Cons.prems e have fresh: "k \<notin> fst ` set pre"
    and d: "distinct (map fst ((pre @ [e]) @ es))"
    by auto
  show ?case
  proof (cases "list_ex (\<lambda>p. uid p = u) (participants g)")
    case True
    let ?g' = "g\<lparr>participants := filter (\<lambda>p. uid p \<noteq> u) (participants g)\<rparr>"
    have d': "distinct (map fst ((pre @ [(k, ?g')]) @ es))" using d e by simp
    from Cons.IH[OF d'] True show ?thesis
      by (simp add: e mapSet_at_fresh_prefix[OF fresh] Let_def gamesOf_def withoutUser_def)
  next
    case False
    then have keep: "filter (\<lambda>p. uid p \<noteq> u) (participants g) = participants g"
      by (simp add: list_ex_iff filter_id_conv)
    from Cons.IH[OF d] False show ?thesis
      by (simp add: e gamesOf_def withoutUser_def keep)
  qed
qed

lemma withoutUser_clean:
  "\<not> list_ex (\<lambda>p. uid p = u) (participants (snd (withoutUser u e)))"
  by (simp add: withoutUser_def list_ex_iff)

lemma keys_withoutUser: "map (fst \<circ> withoutUser u) m = map fst m"
  by (simp add: withoutUser_def comp_def)

subsection \<open>The keys stay pairwise different\<close>

lemma wellFormed_initial: "wellFormed initial"
  by (simp add: wellFormed_def initial_def)

lemma wellFormed_connection: "wellFormed s \<Longrightarrow> wellFormed (connection s socketId a)"
  by (simp add: wellFormed_def connection_def split: option.splits)

lemma wellFormed_createGame: "wellFormed s \<Longrightarrow> wellFormed (fst (createGame s gameData))"
  by (simp add: wellFormed_def createGame_def distinct_mapSet)

lemma wellFormed_joinGame: "wellFormed s \<Longrightarrow> wellFormed (fst (joinGame s gameId player))"
  by (simp add: wellFormed_def joinGame_def Let_def distinct_mapSet split: option.splits)

lemma wellFormed_leaveGame: "wellFormed s \<Longrightarrow> wellFormed (fst (leaveGame s gameId playerId))"
  by (simp add: wellFormed_def leaveGame_def Let_def distinct_mapSet split: option.splits)

lemma wellFormed_toggleReady:
  "wellFormed s \<Longrightarrow> wellFormed (fst (toggleReady s gameId playerId ready))"
  by (simp add: wellFormed_def toggleReady_def Let_def distinct_mapSet split: option.splits)

lemma wellFormed_updateGame:
  "wellFormed s \<Longrightarrow> wellFormed (fst (updateGame s gameId newStatus))"
  by (simp add: wellFormed_def updateGame_def Let_def distinct_mapSet split: option.splits)

lemma wellFormed_disconnect:
  assumes "wellFormed s"
  shows "wellFormed (fst (disconnect s socketId))"
proof -
  from assms have "distinct (map fst ([] @ activeGames s))"
    by (simp add: wellFormed_def)
  from disconnectLoop_distinct[OF this] assms show ?thesis
    by (simp add: wellFormed_def disconnect_def Let_def keys_withoutUser split: option.splits)
qed

section \<open>Facts about the parser\<close>

lemma split_str_not_empty: "split_str sep s \<noteq> []"
  by (induction s) (auto split: list.splits)

lemma length_split_str: "length (split_str sep s) = Suc (length (filter (\<lambda>c. c = sep) s))"
proof (induction s)
  case Nil
  show ?case by simp
next
  case (Cons c cs)
  then show ?case
    using split_str_not_empty[of sep cs] by (auto split: list.splits)
qed

lemma players_setVar: "players (setVar key val st) = players st"
  by (simp add: setVar_def Let_def)

lemma players_parseVars: "players (parseVars vars st) = players st"
  by (induction vars st rule: parseVars.induct) (simp_all add: players_setVar)

section \<open>Joining a game\<close>

text \<open>
  C6. For every state of the store and every participant record, \<^verbatim>\<open>joinGame\<close> with a
  game id that is not a key of \<^verbatim>\<open>activeGames\<close> emits no event and returns the state as
  it was: no game is added and none is changed.
\<close>

theorem joinGame_unknown_unchanged:
  assumes "gameId \<notin> fst ` set (activeGames s)"
  shows "joinGame s gameId player = (s, [])"
proof -
  from assms have "mapGet (activeGames s) gameId = None"
    by (simp add: mapGet_None_iff)
  then show ?thesis
    by (simp add: joinGame_def)
qed

theorem joinGame_unknown_unchanged_witness:
  "''g9'' \<notin> fst ` set (activeGames lobby) \<and> joinGame lobby ''g9'' bob = (lobby, [])"
proof -
  have absent: "''g9'' \<notin> fst ` set (activeGames lobby)"
    by (simp add: lobby_def)
  from joinGame_unknown_unchanged[OF absent, of bob] absent show ?thesis
    by simp
qed

text \<open>
  C9. For every game in the store and every participant record the caller sends, also
  one whose \<^verbatim>\<open>isReady\<close> is already true, \<^verbatim>\<open>joinGame\<close> stores the game with the
  participant appended at the end with \<^verbatim>\<open>isReady\<close> false and every other field as sent,
  and announces that same record: the flag of the caller is overridden.
\<close>

theorem joinGame_appends_not_ready:
  assumes "mapGet (activeGames s) gameId = Some g"
  shows "\<exists>g'. mapGet (activeGames (fst (joinGame s gameId player))) gameId = Some g'
           \<and> participants g' = participants g @ [player\<lparr>isReady := False\<rparr>]
           \<and> \<not> isReady (last (participants g'))
           \<and> uid (last (participants g')) = uid player
           \<and> profile (last (participants g')) = profile player
           \<and> snd (joinGame s gameId player) = [PlayerJoined gameId (player\<lparr>isReady := False\<rparr>)]"
  using assms by (simp add: joinGame_def Let_def mapGet_mapSet_same)

theorem joinGame_appends_not_ready_witness:
  "mapGet (activeGames lobby) ''g2'' = Some readyGame
   \<and> isReady (ann\<lparr>isReady := True\<rparr>)
   \<and> (\<exists>g'. mapGet (activeGames (fst (joinGame lobby ''g2'' (ann\<lparr>isReady := True\<rparr>)))) ''g2'' = Some g'
         \<and> participants g' = [bob, ann]
         \<and> \<not> isReady (last (participants g')))
   \<and> snd (joinGame lobby ''g2'' (ann\<lparr>isReady := True\<rparr>)) = [PlayerJoined ''g2'' ann]"
proof -
  have here: "mapGet (activeGames lobby) ''g2'' = Some readyGame"
    by (simp add: lobby_def)
  from joinGame_appends_not_ready[OF here, of "ann\<lparr>isReady := True\<rparr>"] here show ?thesis
    by (auto simp add: ann_def readyGame_def)
qed

section \<open>Readiness\<close>

text \<open>
  C4. For every game in the store, a \<^verbatim>\<open>toggleReady\<close> call after which every participant
  of the stored game is ready emits exactly one \<^verbatim>\<open>allPlayersReady\<close> event, for that game;
  this holds for any number of participants, and a game without participants counts as
  all ready. A call after which some participant is not ready emits none.
\<close>

theorem toggleReady_allPlayersReady_once:
  assumes "mapGet (activeGames s) gameId = Some g"
  shows "\<exists>g'. mapGet (activeGames (fst (toggleReady s gameId playerId ready))) gameId = Some g'
           \<and> filter isAllPlayersReady (snd (toggleReady s gameId playerId ready)) =
               (if list_all isReady (participants g') then [AllPlayersReady gameId] else [])
           \<and> (participants g = [] \<longrightarrow>
                filter isAllPlayersReady (snd (toggleReady s gameId playerId ready)) =
                  [AllPlayersReady gameId])"
  using assms by (simp add: toggleReady_def Let_def mapGet_mapSet_same)

theorem toggleReady_allPlayersReady_once_witness:
  "mapGet (activeGames lobby) ''g1'' = Some waitingGame
   \<and> filter isAllPlayersReady (snd (toggleReady lobby ''g1'' ''u1'' True)) = [AllPlayersReady ''g1'']
   \<and> filter isAllPlayersReady (snd (toggleReady lobby ''g1'' ''u2'' True)) = []
   \<and> mapGet (activeGames lobby) ''g0'' = Some emptyGame \<and> participants emptyGame = []
   \<and> filter isAllPlayersReady (snd (toggleReady lobby ''g0'' ''u1'' False)) = [AllPlayersReady ''g0'']"
proof -
  have g1: "mapGet (activeGames lobby) ''g1'' = Some waitingGame"
    and g0: "mapGet (activeGames lobby) ''g0'' = Some emptyGame"
    by (simp_all add: lobby_def)
  have after1: "mapGet (activeGames (fst (toggleReady lobby ''g1'' ''u1'' True))) ''g1''
                  = Some (waitingGame\<lparr>participants := [ann\<lparr>isReady := True\<rparr>, bob]\<rparr>)"
    and after2: "mapGet (activeGames (fst (toggleReady lobby ''g1'' ''u2'' True))) ''g1''
                  = Some waitingGame"
    by (simp_all add: toggleReady_def sample_defs)
  from toggleReady_allPlayersReady_once[OF g1, of "''u1''" True]
       toggleReady_allPlayersReady_once[OF g1, of "''u2''" True]
       toggleReady_allPlayersReady_once[OF g0, of "''u1''" False]
       g1 g0 after1 after2
  show ?thesis
    by (auto simp add: ann_def bob_def waitingGame_def emptyGame_def)
qed

text \<open>
  C10. For every game in the store, a \<^verbatim>\<open>toggleReady\<close> call whose player id is the
  \<^verbatim>\<open>uid\<close> of no participant of the game still emits \<^verbatim>\<open>playerReadyChanged\<close> with the game
  id, the player id and the flag it was given, leaves the whole state as it was (so every
  participant record is unchanged), and emits \<^verbatim>\<open>allPlayersReady\<close> after it exactly when
  every participant of the game is already ready, the empty list included, whatever the
  flag of the call.
\<close>

theorem toggleReady_unknown_player:
  assumes "mapGet (activeGames s) gameId = Some g"
      and "\<forall>p \<in> set (participants g). uid p \<noteq> playerId"
  shows "toggleReady s gameId playerId ready =
           (s, PlayerReadyChanged gameId playerId ready #
               (if list_all isReady (participants g) then [AllPlayersReady gameId] else []))"
proof -
  have same: "map (\<lambda>p. if uid p = playerId then p\<lparr>isReady := ready\<rparr> else p) (participants g)
              = participants g"
    using assms(2) by (simp add: map_idI)
  show ?thesis
    using assms(1) by (simp add: toggleReady_def Let_def same mapSet_same_value)
qed

theorem toggleReady_unknown_player_witness:
  "mapGet (activeGames lobby) ''g2'' = Some readyGame
   \<and> ''u1'' \<notin> set (map uid (participants readyGame))
   \<and> toggleReady lobby ''g2'' ''u1'' False =
       (lobby, [PlayerReadyChanged ''g2'' ''u1'' False, AllPlayersReady ''g2''])
   \<and> mapGet (activeGames lobby) ''g0'' = Some emptyGame
   \<and> toggleReady lobby ''g0'' ''u1'' False =
       (lobby, [PlayerReadyChanged ''g0'' ''u1'' False, AllPlayersReady ''g0''])"
proof -
  have g2: "mapGet (activeGames lobby) ''g2'' = Some readyGame"
    and g0: "mapGet (activeGames lobby) ''g0'' = Some emptyGame"
    by (simp_all add: lobby_def)
  have no2: "\<forall>p \<in> set (participants readyGame). uid p \<noteq> ''u1''"
    and no0: "\<forall>p \<in> set (participants emptyGame). uid p \<noteq> ''u1''"
    by (simp_all add: readyGame_def emptyGame_def bob_def)
  from toggleReady_unknown_player[OF g2 no2, of False]
       toggleReady_unknown_player[OF g0 no0, of False] g2 g0 no2
  show ?thesis
    by (simp add: readyGame_def emptyGame_def bob_def)
qed

section \<open>Starting a game\<close>

text \<open>
  What \<^verbatim>\<open>updateGame\<close> does for any status: the status is written to the stored game
  in every case; the broadcast is withheld only for \<^verbatim>\<open>'In Progress'\<close> with a participant
  that is not ready.
\<close>

lemma updateGame_known:
  assumes "mapGet (activeGames s) gameId = Some g"
  shows "mapGet (activeGames (fst (updateGame s gameId newStatus))) gameId
           = Some (g\<lparr>status := newStatus\<rparr>)"
    and "snd (updateGame s gameId newStatus) =
           (if newStatus = ''In Progress'' \<and> \<not> list_all isReady (participants g) then []
            else [GameUpdated (g\<lparr>status := newStatus\<rparr>)])"
  using assms by (simp_all add: updateGame_def Let_def mapGet_mapSet_same)

text \<open>
  C1. The claim: when \<^verbatim>\<open>updateGame\<close> asks for \<^verbatim>\<open>'In Progress'\<close> while some participant
  is not ready, nothing is broadcast and the stored game, its status included, is what it
  was before the call. The code withholds the broadcast but has already written the new
  status: in the sample lobby the game \<^verbatim>\<open>g1\<close> is \<^verbatim>\<open>Open\<close> with a participant who is not
  ready, and after the rejected call it is stored as \<^verbatim>\<open>In Progress\<close>.
\<close>

theorem updateGame_rejected_overwrites_status:
  "mapGet (activeGames lobby) ''g1'' = Some waitingGame
   \<and> status waitingGame = ''Open''
   \<and> \<not> list_all isReady (participants waitingGame)
   \<and> snd (updateGame lobby ''g1'' ''In Progress'') = []
   \<and> mapGet (activeGames (fst (updateGame lobby ''g1'' ''In Progress''))) ''g1''
       = Some (waitingGame\<lparr>status := ''In Progress''\<rparr>)
   \<and> fst (updateGame lobby ''g1'' ''In Progress'') \<noteq> lobby"
proof -
  have g1: "mapGet (activeGames lobby) ''g1'' = Some waitingGame"
    by (simp add: lobby_def)
  have open1: "status waitingGame = ''Open''"
    and waiting: "\<not> list_all isReady (participants waitingGame)"
    by (simp_all add: waitingGame_def ann_def)
  have after: "mapGet (activeGames (fst (updateGame lobby ''g1'' ''In Progress''))) ''g1''
                 = Some (waitingGame\<lparr>status := ''In Progress''\<rparr>)"
    and quiet: "snd (updateGame lobby ''g1'' ''In Progress'') = []"
    using updateGame_known[OF g1, of "''In Progress''"] waiting by simp_all
  have "fst (updateGame lobby ''g1'' ''In Progress'') \<noteq> lobby"
  proof
    assume "fst (updateGame lobby ''g1'' ''In Progress'') = lobby"
    with after g1 have "waitingGame\<lparr>status := ''In Progress''\<rparr> = waitingGame" by simp
    then have "status (waitingGame\<lparr>status := ''In Progress''\<rparr>) = status waitingGame" by simp
    then show False by (simp add: waitingGame_def)
  qed
  with g1 open1 waiting after quiet show ?thesis by simp
qed

text \<open>
  C2, as stated, fails: the claim wants \<^verbatim>\<open>updateGame\<close> with \<^verbatim>\<open>'In Progress'\<close> to succeed
  only for a participant list that is not empty. The game \<^verbatim>\<open>g0\<close> of the sample lobby has
  no participant, and the call stores the new status and broadcasts \<^verbatim>\<open>gameUpdated\<close>.
\<close>

theorem updateGame_empty_game_starts:
  "mapGet (activeGames lobby) ''g0'' = Some emptyGame
   \<and> \<not> ((snd (updateGame lobby ''g0'' ''In Progress'')
            = [GameUpdated (emptyGame\<lparr>status := ''In Progress''\<rparr>)]
          \<and> mapGet (activeGames (fst (updateGame lobby ''g0'' ''In Progress''))) ''g0''
            = Some (emptyGame\<lparr>status := ''In Progress''\<rparr>))
         \<longleftrightarrow> (participants emptyGame \<noteq> [] \<and> list_all isReady (participants emptyGame)))"
proof -
  have g0: "mapGet (activeGames lobby) ''g0'' = Some emptyGame"
    by (simp add: lobby_def)
  have none: "participants emptyGame = []"
    by (simp add: emptyGame_def)
  from updateGame_known[OF g0, of "''In Progress''"] g0 none show ?thesis
    by simp
qed

text \<open>
  C2, amended. For every game in the store, \<^verbatim>\<open>updateGame\<close> with \<^verbatim>\<open>'In Progress'\<close>
  succeeds, that is, the game is stored with status \<^verbatim>\<open>In Progress\<close> and \<^verbatim>\<open>gameUpdated\<close>
  is broadcast with that game, if and only if every participant is ready at the call; a
  game without participants counts as all ready. When some participant is not ready, no
  event is emitted.
\<close>

theorem updateGame_start_iff_all_ready:
  assumes "mapGet (activeGames s) gameId = Some g"
  shows "((snd (updateGame s gameId ''In Progress'') = [GameUpdated (g\<lparr>status := ''In Progress''\<rparr>)]
           \<and> mapGet (activeGames (fst (updateGame s gameId ''In Progress''))) gameId
               = Some (g\<lparr>status := ''In Progress''\<rparr>))
          \<longleftrightarrow> list_all isReady (participants g))
       \<and> (\<not> list_all isReady (participants g) \<longrightarrow> snd (updateGame s gameId ''In Progress'') = [])"
  using updateGame_known[OF assms, of "''In Progress''"] by simp

theorem updateGame_start_iff_all_ready_witness:
  "mapGet (activeGames lobby) ''g2'' = Some readyGame
   \<and> list_all isReady (participants readyGame)
   \<and> snd (updateGame lobby ''g2'' ''In Progress'') = [GameUpdated (readyGame\<lparr>status := ''In Progress''\<rparr>)]
   \<and> mapGet (activeGames (fst (updateGame lobby ''g2'' ''In Progress''))) ''g2''
       = Some (readyGame\<lparr>status := ''In Progress''\<rparr>)
   \<and> mapGet (activeGames lobby) ''g1'' = Some waitingGame
   \<and> \<not> list_all isReady (participants waitingGame)
   \<and> snd (updateGame lobby ''g1'' ''In Progress'') = []"
proof -
  have g2: "mapGet (activeGames lobby) ''g2'' = Some readyGame"
    and g1: "mapGet (activeGames lobby) ''g1'' = Some waitingGame"
    by (simp_all add: lobby_def)
  have ready2: "list_all isReady (participants readyGame)"
    and waiting1: "\<not> list_all isReady (participants waitingGame)"
    by (simp_all add: readyGame_def waitingGame_def ann_def bob_def)
  from updateGame_start_iff_all_ready[OF g2] updateGame_start_iff_all_ready[OF g1]
       g2 g1 ready2 waiting1
  show ?thesis by simp
qed

section \<open>Disconnecting\<close>

text \<open>
  C7. For every registered connection whose user id occurs among the participants of
  exactly two games \<open>ga\<close> and \<open>gb\<close> of the store, the disconnect handler emits
  \<^verbatim>\<open>playerLeft\<close> once for \<open>ga\<close> and once for \<open>gb\<close> and nothing else, takes every
  participant of that user id out of the games (all other participants and games stay as
  they were), so that no stored game has such a participant afterwards, and deletes the
  connection from \<^verbatim>\<open>connectedUsers\<close>: a lookup of the socket id then finds nothing.
\<close>

theorem disconnect_two_sessions:
  assumes reg: "connectedUsers s socketId = Some usr"
      and wf: "wellFormed s"
      and two: "gamesOf (user_id usr) (activeGames s) = [ga, gb]"
  shows "snd (disconnect s socketId) = [PlayerLeft ga (user_id usr), PlayerLeft gb (user_id usr)]
       \<and> activeGames (fst (disconnect s socketId)) = map (withoutUser (user_id usr)) (activeGames s)
       \<and> (\<forall>e \<in> set (activeGames (fst (disconnect s socketId))).
             \<not> list_ex (\<lambda>p. uid p = user_id usr) (participants (snd e)))
       \<and> connectedUsers (fst (disconnect s socketId)) socketId = None"
proof -
  from wf have "distinct (map fst ([] @ activeGames s))"
    by (simp add: wellFormed_def)
  from disconnectLoop_distinct[OF this, of "user_id usr"]
  have loop: "disconnectLoop (user_id usr) (activeGames s) (activeGames s) =
      (map (withoutUser (user_id usr)) (activeGames s),
       map (\<lambda>k. PlayerLeft k (user_id usr)) (gamesOf (user_id usr) (activeGames s)))"
    by simp
  show ?thesis
    using reg by (simp add: disconnect_def Let_def loop two withoutUser_clean)
qed

theorem disconnect_two_sessions_witness:
  "connectedUsers lobby ''sock1'' = Some annUser \<and> wellFormed lobby
   \<and> gamesOf (user_id annUser) (activeGames lobby) = [''g1'', ''g3'']
   \<and> snd (disconnect lobby ''sock1'') = [PlayerLeft ''g1'' ''u1'', PlayerLeft ''g3'' ''u1'']
   \<and> map (\<lambda>e. map uid (participants (snd e))) (activeGames (fst (disconnect lobby ''sock1'')))
       = [Nil, [''u2''], [''u2''], [''u2'']]
   \<and> connectedUsers (fst (disconnect lobby ''sock1'')) ''sock1'' = None"
proof -
  have reg: "connectedUsers lobby ''sock1'' = Some annUser"
    by (simp add: lobby_def)
  have wf: "wellFormed lobby"
    by (simp add: lobby_def wellFormed_def)
  have two: "gamesOf (user_id annUser) (activeGames lobby) = [''g1'', ''g3'']"
    by (simp add: sample_defs gamesOf_def)
  from disconnect_two_sessions[OF reg wf two] reg wf two show ?thesis
    by (simp add: sample_defs withoutUser_def)
qed

section \<open>The status query\<close>

text \<open>
  C8. For every address and port, the datagram that \<^verbatim>\<open>queryGameServer\<close> sends is the
  13 bytes \<^verbatim>\<open>FF FF FF FF\<close> and then the ASCII codes of \<^verbatim>\<open>getstatus\<close>; its last byte is
  the \<^verbatim>\<open>s\<close>, not a null terminator, and it goes to the port and address given.
\<close>

theorem sendQuery_probe_bytes:
  "payload (sendQuery ip port) =
     [0xFF, 0xFF, 0xFF, 0xFF, 0x67, 0x65, 0x74, 0x73, 0x74, 0x61, 0x74, 0x75, 0x73]
   \<and> payload (sendQuery ip port) = replicate 4 0xFF @ map of_char ''getstatus''
   \<and> length (payload (sendQuery ip port)) = 13
   \<and> last (payload (sendQuery ip port)) \<noteq> 0
   \<and> toPort (sendQuery ip port) = port \<and> toAddress (sendQuery ip port) = ip"
proof -
  have bytes: "payload (sendQuery ip port) =
     [0xFF, 0xFF, 0xFF, 0xFF, 0x67, 0x65, 0x74, 0x73, 0x74, 0x61, 0x74, 0x75, 0x73]"
    by (simp add: sendQuery_def send_def queryPacket_def bufferFromBinary_def queryPacketText_def)
  have four: "replicate 4 (0xFF :: 8 word) = [0xFF, 0xFF, 0xFF, 0xFF]"
    by (simp add: numeral_eq_Suc)
  have ascii: "map of_char ''getstatus'' = [0x67, 0x65, 0x74, 0x73, 0x74, 0x61, 0x74, 0x75, 0x73 :: 8 word]"
    by simp
  have dest: "toPort (sendQuery ip port) = port \<and> toAddress (sendQuery ip port) = ip"
    by (simp add: sendQuery_def send_def)
  show ?thesis
    by (simp add: bytes four ascii dest)
qed

text \<open>
  C3, as stated, fails: on the captured response the parser does not answer
  \<open>players = 1\<close>, \<open>maxPlayers = 16\<close>, \<open>map = dm1\<close>, \<open>gametype = 0\<close>.
\<close>

theorem onMessage_captured_not_as_claimed:
  "onMessage capturedResponse \<noteq>
     Inr \<lparr>status_q = ''online'', players = 1, maxPlayers = Num 16,
          map_q = Str ''dm1'', gametype = Str ''0''\<rparr>"
  by (simp add: onMessage_def capturedResponse_def newline_def backslash_def)

text \<open>
  C3, amended. On the captured response the parser resolves with status \<^verbatim>\<open>online\<close>,
  \<open>players = 3\<close> and the defaults \<open>maxPlayers = 32\<close>, \<open>map = unknown\<close>,
  \<open>gametype = unknown\<close>: the first line, \<^verbatim>\<open>statusResponse\<close>, is the status line and holds
  no variable, and the four pieces after it (the line of variables, the two players and
  the empty piece after the last newline) are counted as player lines, less one.
\<close>

theorem onMessage_captured:
  "onMessage capturedResponse =
     Inr \<lparr>status_q = ''online'', players = 3, maxPlayers = Num 32,
          map_q = Str ''unknown'', gametype = Str ''unknown''\<rparr>"
  by (simp add: onMessage_def capturedResponse_def newline_def backslash_def)

text \<open>
  C5. For every response text the parser resolves, and the \<open>players\<close> field is the
  number of pieces after the first line less one, which is the number of newlines in the
  text less one. A text without newline gives \<open>players = - 1\<close>: the value is not
  clamped to zero.
\<close>

theorem onMessage_players:
  "\<exists>st. onMessage response = Inr st
     \<and> players st = int (length (tl (split_str newline response))) - 1
     \<and> players st = int (length (filter (\<lambda>c. c = newline) response)) - 1
     \<and> (newline \<notin> set response \<longrightarrow> players st = - 1)"
proof -
  obtain statusLine playerLines where sp: "split_str newline response = statusLine # playerLines"
    using split_str_not_empty[of newline response] by (cases "split_str newline response") auto
  have len: "length playerLines = length (filter (\<lambda>c. c = newline) response)"
    using length_split_str[of newline response] sp by simp
  have none: "newline \<notin> set response \<Longrightarrow> filter (\<lambda>c. c = newline) response = []"
    by (auto simp add: filter_empty_conv)
  show ?thesis
    using sp len none by (auto simp add: onMessage_def Let_def players_parseVars)
qed

theorem onMessage_players_witness:
  "newline \<notin> set ''statusResponse''
   \<and> (\<exists>st. onMessage ''statusResponse'' = Inr st \<and> players st = - 1)"
proof -
  have plain: "newline \<notin> set ''statusResponse''"
    by (simp add: newline_def)
  from onMessage_players[of "''statusResponse''"] plain show ?thesis
    by auto
qed

end
